theory Spec2Isabelle
  imports Main
begin

section \<open>Kysely table interfaces and the primary-key types of the library\<close>

text \<open>
  The library (\<open>src/example.ts\<close>, from its import of Dexie on) is a handful of
  TypeScript types and one factory function. The types
  compute on a Kysely database interface: an object type whose properties are tables,
  each table an object type whose properties are columns. A column is either wrapped
  in Kysely's \<open>Generated<T>\<close> or it is an ordinary value type. The value types are the
  ones the schemas of the repository use: \<open>number\<close>, \<open>string\<close> and \<open>boolean\<close>.

  An object type is written as the list of its properties, in declaration order; the
  property names of one object type are distinct.
\<close>

datatype ValueType = Numeric | Textual | Boolean

datatype ColumnType = Generated ValueType | Plain ValueType

type_synonym TableSchema = "(string \<times> ColumnType) list"

type_synonym KDatabase = "(string \<times> TableSchema) list"

text \<open>\<open>keyof T\<close>: the union of the property names of an object type.\<close>

definition keyof :: "(string \<times> 'a) list \<Rightarrow> string set" where
  "keyof T = set (map fst T)"

text \<open>The test \<open>T[K] extends Generated<any>\<close> of the conditional type.\<close>

fun extends_Generated :: "ColumnType \<Rightarrow> bool" where
  "extends_Generated (Generated S) = True"
| "extends_Generated (Plain S) = False"

text \<open>
  Kysely's \<open>Selectable<T>\<close> maps every column to its select type and keeps the
  properties whose select type is not \<open>never\<close>. The three value types are inhabited,
  so every property is kept.
\<close>

fun SelectType :: "ColumnType \<Rightarrow> ValueType" where
  "SelectType (Generated S) = S"
| "SelectType (Plain S) = S"

definition Selectable :: "TableSchema \<Rightarrow> (string \<times> ValueType) list" where
  "Selectable T = map (\<lambda>(K, C). (K, SelectType C)) T"

text \<open>
  \<^verbatim>\<open>
  export type FindPrimaryKey<T> = {
    [K in keyof T]: T[K] extends Generated<any> ? K : never;
  }[keyof T] &
    keyof Selectable<T>;
  \<close>
  The mapped type gives every property \<open>K\<close> the literal type \<open>K\<close> or \<open>never\<close>;
  indexing it with \<open>keyof T\<close> is the union of these (\<open>never\<close> contributes nothing).
  The result is intersected with the keys of \<open>Selectable<T>\<close>.
\<close>

definition Generated_keys :: "TableSchema \<Rightarrow> string list" where
  "Generated_keys T = concat (map (\<lambda>(K, C). if extends_Generated C then [K] else []) T)"

definition FindPrimaryKey :: "TableSchema \<Rightarrow> string set" where
  "FindPrimaryKey T = set (Generated_keys T) \<inter> keyof (Selectable T)"

text \<open>
  A primary-key configuration is an object with one string-literal property per table:
  \<open>{ groceries: "id", users: "otherId" }\<close>. Reading a property is \<open>map_of\<close>.
\<close>

type_synonym PKConfig = "(string \<times> string) list"

text \<open>
  \<^verbatim>\<open>
  export type PrimaryKeyConfig<KDatabase> = {
    [KTableName in keyof KDatabase]: FindPrimaryKey<KDatabase[KTableName]>;
  };
  \<close>
  An object type again: one required property per table, whose type is the union of
  that table's candidate keys (\<open>never\<close>, the empty union, when there is none).
\<close>

definition PrimaryKeyConfig :: "KDatabase \<Rightarrow> (string \<times> string set) list" where
  "PrimaryKeyConfig KDatabase =
     map (\<lambda>(KTableName, T). (KTableName, FindPrimaryKey T)) KDatabase"

text \<open>
  The constraint \<open>PKConfig extends PrimaryKeyConfig<KDatabase>\<close> on \<open>createBuilder\<close>
  is checked by the compiler, property by property of the target type. A required
  property the configuration lacks is reported as missing; a property whose literal
  is not a member of the union is reported as not assignable, as the test suite
  records: \<open>Type '"description"' is not assignable to type '"id1" | "id2"'\<close>.
\<close>

datatype diagnostic =
    PropertyMissing string
  | NotAssignable string string "string set"

fun property_check :: "PKConfig \<Rightarrow> string \<times> string set \<Rightarrow> diagnostic list" where
  "property_check config (KTableName, U) =
     (case map_of config KTableName of
        None \<Rightarrow> [PropertyMissing KTableName]
      | Some pk \<Rightarrow> if pk \<in> U then [] else [NotAssignable KTableName pk U])"

definition typecheck :: "KDatabase \<Rightarrow> PKConfig \<Rightarrow> diagnostic list" where
  "typecheck KDatabase config = concat (map (property_check config) (PrimaryKeyConfig KDatabase))"

text \<open>
  The two refusals the design names, as readings of the compiler's diagnostic: the
  chosen field is not in the candidate set (\<open>InvalidKeyChoice\<close>), and the candidate
  set is empty, that is the property's type is \<open>never\<close> (\<open>NoCandidateKey\<close>).
\<close>

fun InvalidKeyChoice :: "diagnostic \<Rightarrow> bool" where
  "InvalidKeyChoice (NotAssignable KTableName pk U) = (pk \<notin> U)"
| "InvalidKeyChoice (PropertyMissing KTableName) = False"

fun NoCandidateKey :: "diagnostic \<Rightarrow> bool" where
  "NoCandidateKey (NotAssignable KTableName pk U) = (U = {})"
| "NoCandidateKey (PropertyMissing KTableName) = False"

text \<open>The schema of the test suite (\<open>test/index.test.ts\<close>, \<open>TestDatabase\<close>).\<close>

definition TestDatabase :: KDatabase where
  "TestDatabase =
     [(''users'', [(''id'', Generated Numeric), (''name'', Plain Textual)]),
      (''products'', [(''sku'', Generated Textual), (''name'', Plain Textual),
                      (''price'', Plain Numeric)]),
      (''ambiguous_items'', [(''id1'', Generated Numeric), (''id2'', Generated Textual),
                             (''description'', Plain Textual)])]"

section \<open>The factory\<close>

text \<open>
  At run time a JavaScript object is its list of properties. \<open>Object.entries\<close> lists
  them and \<open>Object.fromEntries\<close> builds an object from a list of entries, a later
  entry replacing the value of an earlier one with the same key. (The order in which
  the properties are listed plays no part in what follows.)
\<close>

definition Object_entries :: "(string \<times> 'a) list \<Rightarrow> (string \<times> 'a) list" where
  "Object_entries obj = obj"

fun set_property :: "string \<Rightarrow> 'a \<Rightarrow> (string \<times> 'a) list \<Rightarrow> (string \<times> 'a) list" where
  "set_property k v [] = [(k, v)]"
| "set_property k v ((k', v') # obj) =
     (if k' = k then (k, v) # obj else (k', v') # set_property k v obj)"

definition Object_fromEntries :: "(string \<times> 'a) list \<Rightarrow> (string \<times> 'a) list" where
  "Object_fromEntries entries = foldl (\<lambda>obj (k, v). set_property k v obj) [] entries"

text \<open>
  \<^verbatim>\<open>
  // Transform the config to prepend '&' to each primary key.
  // In Dexie, `&id` means the key 'id' is user-provided and unique, but not auto-incrementing.
  const storesConfig = Object.fromEntries(
    Object.entries(config).map(([tableName, pk]) => [
      tableName,
      `${pk as string}`,
    ])
  );
  \<close>
  The template literal holds the substitution and nothing else: its value is \<open>pk\<close>.
\<close>

definition storesConfig :: "PKConfig \<Rightarrow> (string \<times> string) list" where
  "storesConfig config =
     Object_fromEntries (map (\<lambda>(tableName, pk). (tableName, pk)) (Object_entries config))"

text \<open>
  \<^verbatim>\<open>
  export function kyselyToDexieFactory<KDatabase extends Record<string, any>>() {
    return function createBuilder<PKConfig extends PrimaryKeyConfig<KDatabase>>(
      config: PKConfig
    ) {
      return {
        build(dbName: string, version: number): DexieFromKysely<KDatabase, PKConfig> {
          const db = new Dexie(dbName);
          const storesConfig = ...;
          db.version(version).stores(storesConfig);
          return db as DexieFromKysely<KDatabase, PKConfig>;
        },
      };
    };
  }
  \<close>
  The schema \<open>KDatabase\<close> is a type argument and the constraint on \<open>PKConfig\<close> is
  checked by the compiler (\<open>typecheck\<close> above); both are erased when the program
  runs. The body of \<open>createBuilder\<close> has no branch and no \<open>throw\<close>: it returns the
  builder, the closure over \<open>config\<close>, for every argument.
\<close>

datatype builder = Builder (captured: PKConfig)

definition createBuilder :: "PKConfig \<Rightarrow> builder" where
  "createBuilder config = Builder config"

definition kyselyToDexieFactory :: "PKConfig \<Rightarrow> builder" where
  "kyselyToDexieFactory = createBuilder"

text \<open>
  Modelled from the spec: the storage engine (Dexie) is not part of the repository.
  The store handle of the spec is the database object, keyed by its name and version;
  building under an existing store name addresses the existing store. A Dexie
  instance is the object \<open>new Dexie(dbName)\<close> creates: it holds the name and, for each
  version, the stores that \<open>db.version(version).stores(storesConfig)\<close> declared. The
  records are kept by the engine in its databases, one per name, each a family of
  tables. \<open>toArray\<close> reads a table of the database that a handle's name denotes, and
  \<open>stored\<close> is the effect of an insert the engine accepts: the record is added to
  that table. The version number is passed through as it is.
\<close>

record Dexie =
  name :: string
  versions :: "(int \<times> (string \<times> string) list) list"

record 'r runtime =
  instances :: "Dexie list"
  databases :: "string \<Rightarrow> string \<Rightarrow> 'r list"

definition new_Dexie :: "string \<Rightarrow> 'r runtime \<Rightarrow> nat \<times> 'r runtime" where
  "new_Dexie dbName w =
     (length (instances w), w\<lparr>instances := instances w @ [\<lparr>name = dbName, versions = []\<rparr>]\<rparr>)"

definition version_stores ::
  "nat \<Rightarrow> int \<Rightarrow> (string \<times> string) list \<Rightarrow> 'r runtime \<Rightarrow> 'r runtime" where
  "version_stores db version stores w =
     (if db < length (instances w)
      then w\<lparr>instances := (instances w)
               [db := (instances w ! db)
                  \<lparr>versions := versions (instances w ! db) @ [(version, stores)]\<rparr>]\<rparr>
      else w)"

definition toArray :: "'r runtime \<Rightarrow> nat \<Rightarrow> string \<Rightarrow> 'r list" where
  "toArray w db tableName = databases w (name (instances w ! db)) tableName"

definition stored :: "'r runtime \<Rightarrow> nat \<Rightarrow> string \<Rightarrow> 'r \<Rightarrow> 'r runtime" where
  "stored w db tableName r =
     (let n = name (instances w ! db)
      in w\<lparr>databases := (databases w)
              (n := (databases w n)(tableName := databases w n tableName @ [r]))\<rparr>)"

definition build :: "builder \<Rightarrow> string \<Rightarrow> int \<Rightarrow> 'r runtime \<Rightarrow> nat \<times> 'r runtime" where
  "build b dbName version w =
     (case new_Dexie dbName w of
        (db, w1) \<Rightarrow> (db, version_stores db version (storesConfig (captured b)) w1))"

text \<open>
  The whole chain, as \<open>example.ts\<close> and the tests write it:
  \<open>kyselyToDexieFactory<KDatabase>()(primaryKeyConfig).build(dbName, version)\<close>.
\<close>

definition dxdb :: "PKConfig \<Rightarrow> string \<Rightarrow> int \<Rightarrow> 'r runtime \<Rightarrow> nat \<times> 'r runtime" where
  "dxdb primaryKeyConfig dbName version w =
     build (kyselyToDexieFactory primaryKeyConfig) dbName version w"

text \<open>
  Modelled from the spec: how the engine reads the declaration of a store is not part
  of the repository either. The key specification of the spec is
  \<open>{ fieldName, unique, externallySupplied }\<close>. In the engine the primary key of a
  store is unique however it is declared. Dexie's schema syntax, on which the comment
  in \<open>build\<close> (\<open>&id\<close>) and the test suite (\<open>primKey.name\<close>, \<open>primKey.auto\<close>) rely,
  writes the primary key first, before any comma, surrounded by optional white space;
  the marks \<open>&\<close>, \<open>*\<close> and \<open>++\<close> are removed from it to give the name of the field,
  and the key is generated by the engine, not supplied with the record, exactly when
  \<open>++\<close> occurs in it.
\<close>

record KeySpec =
  fieldName :: string
  unique :: bool
  externallySupplied :: bool

definition whitespace :: "char \<Rightarrow> bool" where
  "whitespace c = (c \<in> set [CHR '' '', CHR 0x09, CHR 0x0A, CHR 0x0B, CHR 0x0C, CHR 0x0D])"

definition trim :: "string \<Rightarrow> string" where
  "trim s = rev (dropWhile whitespace (rev (dropWhile whitespace s)))"

fun remove_marks :: "string \<Rightarrow> string" where
  "remove_marks [] = []"
| "remove_marks [c] = (if c = CHR ''&'' \<or> c = CHR ''*'' then [] else [c])"
| "remove_marks (c # d # s) =
     (if c = CHR ''&'' \<or> c = CHR ''*'' then remove_marks (d # s)
      else if c = CHR ''+'' \<and> d = CHR ''+'' then remove_marks s
      else c # remove_marks (d # s))"

fun auto_mark :: "string \<Rightarrow> bool" where
  "auto_mark (c # d # s) = ((c = CHR ''+'' \<and> d = CHR ''+'') \<or> auto_mark (d # s))"
| "auto_mark s = False"

definition primKey :: "string \<Rightarrow> KeySpec" where
  "primKey s =
     (let index = trim (takeWhile (\<lambda>c. c \<noteq> CHR '','') s)
      in \<lparr>fieldName = remove_marks index, unique = True,
          externallySupplied = (\<not> auto_mark index)\<rparr>)"

definition KeySpecs :: "'r runtime \<Rightarrow> nat \<Rightarrow> (string \<times> KeySpec) set" where
  "KeySpecs w db =
     set (concat (map (\<lambda>(version, stores). map (\<lambda>(tableName, s). (tableName, primKey s)) stores)
                      (versions (instances w ! db))))"



text \<open>
  The engine before anything was built or stored, and the records of the test suite:
  a record is the list of its properties, a property value a number or a string.
\<close>

definition fresh_runtime :: "'r runtime" where
  "fresh_runtime = \<lparr>instances = [], databases = (\<lambda>n tableName. [])\<rparr>"

datatype JSValue = JSNumber int | JSString string

type_synonym row = "(string \<times> JSValue) list"

section \<open>Properties of the types\<close>

lemma keyof_Selectable: "keyof (Selectable T) = keyof T"
  by (induction T) (auto simp: keyof_def Selectable_def)

lemma set_Generated_keys: "set (Generated_keys T) = {K. \<exists>S. (K, Generated S) \<in> set T}"
proof (induction T)
  case Nil
  show ?case by (simp add: Generated_keys_def)
next
  case (Cons p T)
  obtain K C where p: "p = (K, C)" by (cases p)
  have step: "Generated_keys (p # T) = (if extends_Generated C then [K] else []) @ Generated_keys T"
    by (simp add: Generated_keys_def p)
  show ?case
  proof (cases C)
    case (Generated S)
    with step Cons.IH p show ?thesis by auto
  next
    case (Plain S)
    with step Cons.IH p show ?thesis by auto
  qed
qed

lemma Generated_keys_subset: "set (Generated_keys T) \<subseteq> keyof T"
  by (auto simp: set_Generated_keys keyof_def intro: image_eqI [where x = "(K, Generated S)" for K S])

lemma FindPrimaryKey_eq: "FindPrimaryKey T = {K. \<exists>S. (K, Generated S) \<in> set T}"
proof -
  have "FindPrimaryKey T = set (Generated_keys T) \<inter> keyof T"
    by (simp add: FindPrimaryKey_def keyof_Selectable)
  also have "\<dots> = set (Generated_keys T)"
    using Generated_keys_subset [of T] by blast
  finally show ?thesis by (simp add: set_Generated_keys)
qed

text \<open>
  C5. The candidate keys of a table are exactly the names of its \<open>Generated\<close> columns:
  every \<open>Generated\<close> column is a candidate and no plain column is. The result is a set
  (a union of literal types), so the order of the columns does not matter.
\<close>

theorem C5_FindPrimaryKey_exactly_Generated:
  "FindPrimaryKey T = {K. \<exists>S. (K, Generated S) \<in> set T}
   \<and> (distinct (map fst T) \<longrightarrow> (\<forall>K S. (K, Plain S) \<in> set T \<longrightarrow> K \<notin> FindPrimaryKey T))"
proof (intro conjI impI allI)
  show "FindPrimaryKey T = {K. \<exists>S. (K, Generated S) \<in> set T}"
    by (rule FindPrimaryKey_eq)
next
  fix K S
  assume d: "distinct (map fst T)" and p: "(K, Plain S) \<in> set T"
  show "K \<notin> FindPrimaryKey T"
  proof
    assume "K \<in> FindPrimaryKey T"
    then obtain S' where "(K, Generated S') \<in> set T"
      by (auto simp: FindPrimaryKey_eq)
    with d have "map_of T K = Some (Generated S')" by simp
    moreover from d p have "map_of T K = Some (Plain S)" by simp
    ultimately show False by simp
  qed
qed

theorem C5_FindPrimaryKey_witness:
  "FindPrimaryKey [(''a'', Plain Textual), (''b'', Generated Numeric), (''c'', Generated Textual)]
     = {''b'', ''c''}
   \<and> distinct (map fst [(''a'', Plain Textual), (''b'', Generated Numeric), (''c'', Generated Textual)])
   \<and> ''a'' \<notin> FindPrimaryKey [(''a'', Plain Textual), (''b'', Generated Numeric), (''c'', Generated Textual)]"
  using C5_FindPrimaryKey_exactly_Generated
    [of "[(''a'', Plain Textual), (''b'', Generated Numeric), (''c'', Generated Textual)]"]
  by auto

lemma property_check_in_typecheck:
  assumes "(t, T) \<in> set db"
  shows "set (property_check config (t, FindPrimaryKey T)) \<subseteq> set (typecheck db config)"
proof -
  from assms have "(t, FindPrimaryKey T) \<in> set (PrimaryKeyConfig db)"
    by (force simp: PrimaryKeyConfig_def)
  then show ?thesis
    unfolding typecheck_def by auto
qed

text \<open>
  C3. A configuration that passes the check chooses, for every table of the schema, a
  member of that table's candidate keys, that is one of its \<open>Generated\<close> columns; a choice that is not a member is refused:
  the check reports that the literal is not assignable to the union of the candidates
  (the refusal the design calls \<open>InvalidKeyChoice\<close>).
\<close>

theorem C3_validated_choice_is_candidate:
  assumes "(t, T) \<in> set db" and "map_of config t = Some pk"
  shows "(typecheck db config = [] \<longrightarrow>
            pk \<in> FindPrimaryKey T \<and> (\<exists>S. (pk, Generated S) \<in> set T))
       \<and> (pk \<notin> FindPrimaryKey T \<longrightarrow>
            NotAssignable t pk (FindPrimaryKey T) \<in> set (typecheck db config)
            \<and> InvalidKeyChoice (NotAssignable t pk (FindPrimaryKey T)))"
proof -
  have sub: "set (property_check config (t, FindPrimaryKey T)) \<subseteq> set (typecheck db config)"
    using assms(1) by (rule property_check_in_typecheck)
  have bad: "NotAssignable t pk (FindPrimaryKey T) \<in> set (typecheck db config)"
    if "pk \<notin> FindPrimaryKey T"
    using sub that assms(2) by simp
  show ?thesis
  proof (intro conjI impI)
    assume ok: "typecheck db config = []"
    show member: "pk \<in> FindPrimaryKey T"
    proof (rule ccontr)
      assume "pk \<notin> FindPrimaryKey T"
      then have "NotAssignable t pk (FindPrimaryKey T) \<in> set (typecheck db config)"
        by (rule bad)
      with ok show False by simp
    qed
    then show "\<exists>S. (pk, Generated S) \<in> set T"
      by (simp add: FindPrimaryKey_eq)
  next
    assume "pk \<notin> FindPrimaryKey T"
    then show "NotAssignable t pk (FindPrimaryKey T) \<in> set (typecheck db config)"
      by (rule bad)
  next
    assume "pk \<notin> FindPrimaryKey T"
    then show "InvalidKeyChoice (NotAssignable t pk (FindPrimaryKey T))"
      by simp
  qed
qed

theorem C3_validated_choice_witness:
  "typecheck TestDatabase [(''users'', ''id''), (''products'', ''sku''), (''ambiguous_items'', ''id1'')] = []
   \<and> ''id1'' \<in> FindPrimaryKey [(''id1'', Generated Numeric), (''id2'', Generated Textual), (''description'', Plain Textual)]
   \<and> NotAssignable ''ambiguous_items'' ''description'' {''id1'', ''id2''}
        \<in> set (typecheck TestDatabase
             [(''users'', ''id''), (''products'', ''sku''), (''ambiguous_items'', ''description'')])"
proof -
  let ?T = "[(''id1'', Generated Numeric), (''id2'', Generated Textual), (''description'', Plain Textual)]"
  let ?ok = "[(''users'', ''id''), (''products'', ''sku''), (''ambiguous_items'', ''id1'')]"
  let ?bad = "[(''users'', ''id''), (''products'', ''sku''), (''ambiguous_items'', ''description'')]"
  have mem: "(''ambiguous_items'', ?T) \<in> set TestDatabase"
    by (simp add: TestDatabase_def)
  have fpk: "FindPrimaryKey ?T = {''id1'', ''id2''}"
    by (simp add: FindPrimaryKey_def Generated_keys_def keyof_def Selectable_def)
  have ok: "typecheck TestDatabase ?ok = []"
    by (simp add: typecheck_def PrimaryKeyConfig_def TestDatabase_def FindPrimaryKey_def
        Generated_keys_def keyof_def Selectable_def)
  have l1: "map_of ?ok ''ambiguous_items'' = Some ''id1''" by simp
  have l2: "map_of ?bad ''ambiguous_items'' = Some ''description''" by simp
  have nm: "''description'' \<notin> FindPrimaryKey ?T" by (simp add: fpk)
  from C3_validated_choice_is_candidate [OF mem l1] ok
  have a: "''id1'' \<in> FindPrimaryKey ?T" by blast
  from C3_validated_choice_is_candidate [OF mem l2] nm
  have b: "NotAssignable ''ambiguous_items'' ''description'' (FindPrimaryKey ?T) \<in> set (typecheck TestDatabase ?bad)"
    by blast
  from ok a b show ?thesis by (simp only: fpk)
qed

text \<open>
  C4. A table without a \<open>Generated\<close> column has no candidate key. No configuration
  passes the check for a schema that holds such a table, and an entry for the table is
  refused whatever field it names: nothing is assignable to the empty union (the
  refusal the design calls \<open>NoCandidateKey\<close>).
\<close>

theorem C4_no_candidate_key:
  assumes "(t, T) \<in> set db" and "\<forall>K S. (K, Generated S) \<notin> set T"
  shows "FindPrimaryKey T = {}
       \<and> typecheck db config \<noteq> []
       \<and> (\<forall>pk. map_of config t = Some pk \<longrightarrow>
             NotAssignable t pk {} \<in> set (typecheck db config)
             \<and> NoCandidateKey (NotAssignable t pk {}))"
proof -
  have e: "FindPrimaryKey T = {}"
    using assms(2) by (simp add: FindPrimaryKey_eq)
  have sub: "set (property_check config (t, {})) \<subseteq> set (typecheck db config)"
    using property_check_in_typecheck [OF assms(1), of config] by (simp add: e)
  have ne: "property_check config (t, {}) \<noteq> []"
    by (simp split: option.split)
  have "typecheck db config \<noteq> []"
  proof
    assume "typecheck db config = []"
    with sub have "set (property_check config (t, {})) = {}" by simp
    with ne show False by simp
  qed
  moreover have "NotAssignable t pk {} \<in> set (typecheck db config)"
    if "map_of config t = Some pk" for pk
    using sub that by simp
  ultimately show ?thesis using e by simp
qed

theorem C4_no_candidate_key_witness:
  "(''logs'', [(''message'', Plain Textual)]) \<in> set [(''logs'', [(''message'', Plain Textual)])]
   \<and> FindPrimaryKey [(''message'', Plain Textual)] = {}
   \<and> typecheck [(''logs'', [(''message'', Plain Textual)])] [(''logs'', ''message'')] \<noteq> []
   \<and> NotAssignable ''logs'' ''message'' {}
        \<in> set (typecheck [(''logs'', [(''message'', Plain Textual)])] [(''logs'', ''message'')])
   \<and> NoCandidateKey (NotAssignable ''logs'' ''message'' {})"
proof -
  let ?T = "[(''message'', Plain Textual)]"
  have mem: "(''logs'', ?T) \<in> set [(''logs'', ?T)]" by simp
  have nog: "\<forall>K S. (K, Generated S) \<notin> set ?T" by simp
  have l: "map_of [(''logs'', ''message'')] ''logs'' = Some ''message''" by simp
  from C4_no_candidate_key [OF mem nog, of "[(''logs'', ''message'')]"] l mem
  show ?thesis by blast
qed

section \<open>The chain at run time\<close>


lemma dxdb_eq:
  "dxdb config dbName version w =
     (length (instances w),
      w\<lparr>instances := instances w @ [\<lparr>name = dbName, versions = [(version, storesConfig config)]\<rparr>]\<rparr>)"
  by (simp add: dxdb_def kyselyToDexieFactory_def createBuilder_def build_def new_Dexie_def
      version_stores_def)




section \<open>Two builds\<close>

text \<open>
  C7, as the code has it. Running the chain twice with the same configuration and
  version declares the same stores, hence the same key specifications, on two distinct
  Dexie instances, and the second run leaves the first instance as it was. Whether
  the two instances are independent as storage is decided by their names: built under
  different names, a record stored through one is not seen through the other; built
  under the same name, both denote one database and the record is seen through the
  other.
\<close>

theorem C7_two_builds:
  assumes "dxdb config n1 version w = (d1, w1)"
    and "dxdb config n2 version w1 = (d2, w2)"
  shows "d1 \<noteq> d2 \<and> d1 < length (instances w2) \<and> d2 < length (instances w2)
       \<and> instances w2 ! d1 = instances w1 ! d1
       \<and> versions (instances w2 ! d1) = [(version, storesConfig config)]
       \<and> versions (instances w2 ! d2) = [(version, storesConfig config)]
       \<and> KeySpecs w2 d1 = KeySpecs w2 d2
       \<and> (n1 = n2 \<longrightarrow>
            toArray (stored w2 d1 tableName r) d2 tableName = toArray w2 d2 tableName @ [r])
       \<and> (n1 \<noteq> n2 \<longrightarrow>
            toArray (stored w2 d1 tableName r) d2 tableName' = toArray w2 d2 tableName')"
proof -
  let ?i1 = "\<lparr>name = n1, versions = [(version, storesConfig config)]\<rparr>"
  let ?i2 = "\<lparr>name = n2, versions = [(version, storesConfig config)]\<rparr>"
  from assms(1) have 1: "d1 = length (instances w)" "instances w1 = instances w @ [?i1]"
    "databases w1 = databases w"
    by (auto simp: dxdb_eq)
  from assms(2) have 2: "d2 = length (instances w1)" "instances w2 = instances w1 @ [?i2]"
    "databases w2 = databases w1"
    by (auto simp: dxdb_eq)
  have a: "instances w1 ! d1 = ?i1" by (simp add: 1)
  have b: "instances w2 ! d2 = ?i2" by (simp add: 2)
  have c: "instances w2 ! d1 = ?i1" by (simp add: 1 2 nth_append)
  show ?thesis
  proof (intro conjI impI)
    show "d1 \<noteq> d2" by (simp add: 1 2)
    show "d1 < length (instances w2)" by (simp add: 1 2)
    show "d2 < length (instances w2)" by (simp add: 2)
    show "instances w2 ! d1 = instances w1 ! d1" by (simp add: a c)
    show "versions (instances w2 ! d1) = [(version, storesConfig config)]" by (simp add: c)
    show "versions (instances w2 ! d2) = [(version, storesConfig config)]" by (simp add: b)
    show "KeySpecs w2 d1 = KeySpecs w2 d2" by (simp add: KeySpecs_def b c)
  next
    assume "n1 = n2"
    then show "toArray (stored w2 d1 tableName r) d2 tableName = toArray w2 d2 tableName @ [r]"
      by (simp add: toArray_def stored_def b c)
  next
    assume "n1 \<noteq> n2"
    then show "toArray (stored w2 d1 tableName r) d2 tableName' = toArray w2 d2 tableName'"
      by (simp add: toArray_def stored_def b c)
  qed
qed

theorem C7_two_builds_witness:
  "toArray (stored (snd (dxdb [(''users'', ''id'')] ''numeric-pk-db'' 1
                  (snd (dxdb [(''users'', ''id'')] ''numeric-pk-db'' 1 (fresh_runtime :: row runtime)))))
                  0 ''users'' [(''id'', JSNumber 123), (''name'', JSString ''Alice'')])
        1 ''users'' = [[(''id'', JSNumber 123), (''name'', JSString ''Alice'')]]
   \<and> toArray (stored (snd (dxdb [(''users'', ''id'')] ''other-db'' 1
                  (snd (dxdb [(''users'', ''id'')] ''numeric-pk-db'' 1 (fresh_runtime :: row runtime)))))
                  0 ''users'' [(''id'', JSNumber 123), (''name'', JSString ''Alice'')])
        1 ''users'' = []
   \<and> KeySpecs (snd (dxdb [(''users'', ''id'')] ''other-db'' 1
                  (snd (dxdb [(''users'', ''id'')] ''numeric-pk-db'' 1 (fresh_runtime :: row runtime))))) 0
     = KeySpecs (snd (dxdb [(''users'', ''id'')] ''other-db'' 1
                  (snd (dxdb [(''users'', ''id'')] ''numeric-pk-db'' 1 (fresh_runtime :: row runtime))))) 1"
proof -
  let ?c = "[(''users'', ''id'')]"
  let ?alice = "[(''id'', JSNumber 123), (''name'', JSString ''Alice'')]"
  let ?w0 = "fresh_runtime :: row runtime"
  let ?w1 = "snd (dxdb ?c ''numeric-pk-db'' 1 ?w0)"
  let ?same = "snd (dxdb ?c ''numeric-pk-db'' 1 ?w1)"
  let ?other = "snd (dxdb ?c ''other-db'' 1 ?w1)"
  have r1: "dxdb ?c ''numeric-pk-db'' 1 ?w0 = (0, ?w1)"
    by (simp add: dxdb_eq fresh_runtime_def)
  have r2: "dxdb ?c ''numeric-pk-db'' 1 ?w1 = (1, ?same)"
    by (simp add: dxdb_eq fresh_runtime_def)
  have r3: "dxdb ?c ''other-db'' 1 ?w1 = (1, ?other)"
    by (simp add: dxdb_eq fresh_runtime_def)
  have e: "toArray ?same 1 ''users'' = []" "toArray ?other 1 ''users'' = []"
    by (simp_all add: dxdb_eq fresh_runtime_def toArray_def)
  from C7_two_builds [OF r1 r2, of "''users''" ?alice] e
  have a: "toArray (stored ?same 0 ''users'' ?alice) 1 ''users'' = [?alice]"
    by simp
  have ne: "''numeric-pk-db'' \<noteq> ''other-db''" by simp
  from C7_two_builds [OF r1 r3, of "''users''" ?alice "''users''"] ne e
  have b: "toArray (stored ?other 0 ''users'' ?alice) 1 ''users'' = []"
    by simp
  from C7_two_builds [OF r1 r3]
  have c: "KeySpecs ?other 0 = KeySpecs ?other 1"
    by blast
  from a b c show ?thesis by simp
qed

text \<open>
  C7 as stated says that two runs with identical inputs return independent storage
  instances. Two runs with the configuration \<open>{ users: "id" }\<close>, the name
  \<open>numeric-pk-db\<close> and version 1 return the instances 0 and 1; the table \<open>users\<close> read
  through instance 1 is empty, and after \<open>{ id: 123, name: "Alice" }\<close> is stored
  through instance 0 it holds that record.
\<close>

theorem C7_same_name_shares_storage:
  "fst (dxdb [(''users'', ''id'')] ''numeric-pk-db'' 1 (fresh_runtime :: row runtime)) = 0
   \<and> fst (dxdb [(''users'', ''id'')] ''numeric-pk-db'' 1
             (snd (dxdb [(''users'', ''id'')] ''numeric-pk-db'' 1 (fresh_runtime :: row runtime)))) = 1
   \<and> toArray (snd (dxdb [(''users'', ''id'')] ''numeric-pk-db'' 1
                  (snd (dxdb [(''users'', ''id'')] ''numeric-pk-db'' 1 (fresh_runtime :: row runtime)))))
        1 ''users'' = []
   \<and> toArray (stored (snd (dxdb [(''users'', ''id'')] ''numeric-pk-db'' 1
                  (snd (dxdb [(''users'', ''id'')] ''numeric-pk-db'' 1 (fresh_runtime :: row runtime)))))
                  0 ''users'' [(''id'', JSNumber 123), (''name'', JSString ''Alice'')])
        1 ''users'' = [[(''id'', JSNumber 123), (''name'', JSString ''Alice'')]]"
  by (simp add: dxdb_eq fresh_runtime_def toArray_def stored_def)

section \<open>The emitted key specification\<close>














end
